theory Spec2Isabelle
  imports Complex_Main "HOL-Library.Char_ord" "HOL-Library.List_Lexorder"
begin

section \<open>Monthly Bill Organizer: metrics and alerts\<close>

text \<open>
  A shallow embedding of \<^verbatim>\<open>main.py\<close> and \<^verbatim>\<open>schemas.py\<close>.

  Conventions of the embedding:
  \<^item> A Python \<^verbatim>\<open>float\<close> is the rational number that it denotes (\<open>pyfloat\<close>); the
    operations of the handlers on floats (\<^verbatim>\<open>+\<close>, \<^verbatim>\<open>-\<close>, \<^verbatim>\<open>*\<close>, \<^verbatim>\<open>/\<close>, \<^verbatim>\<open>sum\<close>) round their
    exact result to binary64, comparisons are exact. Infinities, NaN and overflow are
    outside the model.
  \<^item> Python \<^verbatim>\<open>int\<close> is \<^typ>\<open>int\<close>, \<^verbatim>\<open>str\<close> is \<^typ>\<open>string\<close>, \<^verbatim>\<open>None\<close> is
    \<^const>\<open>None\<close>, an insertion-ordered \<^verbatim>\<open>dict\<close> is an association list with distinct keys.
  \<^item> A raised exception is \<^const>\<open>Inl\<close> of an \<open>error\<close>; a returned value is \<^const>\<open>Inr\<close>.
  \<^item> The clock (\<^verbatim>\<open>datetime.utcnow().date()\<close>) is an argument of the handler that reads it.
  \<^item> The module-level \<^verbatim>\<open>db\<close> handle is an argument of every handler; \<^const>\<open>None\<close> is
    the handle that is not available.
\<close>

subsection \<open>Errors\<close>

datatype error =
    HTTPException (status_code: nat) (detail: string)
  | ValueError

text \<open>\<^verbatim>\<open>except HTTPException as e\<close> catches the first kind only.\<close>

fun status_code_of :: "error \<Rightarrow> nat option" where
  "status_code_of (HTTPException c d) = Some c"
| "status_code_of ValueError = None"

subsection \<open>Binary64 arithmetic\<close>

text \<open>
  IEEE 754 binary64 with rounding to nearest, ties to even: 53 significant bits, least
  exponent \<open>-1022\<close> (below it the spacing stays \<^verbatim>\<open>2**-1074\<close>, gradual underflow). The
  exponent range has no upper end here: a result beyond the largest double is rounded like
  any other, where the machine overflows.
\<close>

type_synonym pyfloat = rat

text \<open>The number of binary digits of a positive integer.\<close>

function bitlen :: "int \<Rightarrow> nat" where
  "bitlen n = (if n \<le> 0 then 0 else Suc (bitlen (n div 2)))"
  by pat_completeness auto
termination
  by (relation "measure nat") auto

declare bitlen.simps [simp del]

definition pow2 :: "int \<Rightarrow> rat" where
  "pow2 e = (if 0 \<le> e then 2 ^ nat e else 1 / 2 ^ nat (- e))"

text \<open>The binary exponent of a positive rational: \<open>pow2 (expo x) \<le> x < pow2 (expo x + 1)\<close>.\<close>

definition expo :: "rat \<Rightarrow> int" where
  "expo x =
     (if 1 \<le> x then int (bitlen \<lfloor>x\<rfloor>) - 1
      else - int (bitlen (\<lceil>1 / x\<rceil> - 1)))"

definition round_half_even :: "rat \<Rightarrow> int" where
  "round_half_even x =
     (let f = \<lfloor>x\<rfloor>; d = x - of_int f
      in if d < 1 / 2 then f
         else if 1 / 2 < d then f + 1
         else if even f then f else f + 1)"

text \<open>The double nearest to a rational.\<close>

definition fl :: "rat \<Rightarrow> pyfloat" where
  "fl x =
     (if x = 0 then 0
      else (let e = max (expo \<bar>x\<bar>) (- 1022);
                q = pow2 (e - 52)
            in of_int (round_half_even (x / q)) * q))"

definition fadd :: "pyfloat \<Rightarrow> pyfloat \<Rightarrow> pyfloat" where
  "fadd a b = fl (a + b)"

definition fsub :: "pyfloat \<Rightarrow> pyfloat \<Rightarrow> pyfloat" where
  "fsub a b = fl (a - b)"

definition fmul :: "pyfloat \<Rightarrow> pyfloat \<Rightarrow> pyfloat" where
  "fmul a b = fl (a * b)"

definition fdiv :: "pyfloat \<Rightarrow> pyfloat \<Rightarrow> pyfloat" where
  "fdiv a b = fl (a / b)"

text \<open>
  \<^verbatim>\<open>sum(...)\<close> over floats: the running binary64 sum from the left, starting at 0. (From
  CPython 3.12 on \<^verbatim>\<open>sum\<close> also accumulates the rounding errors of the running sum and adds
  them at the end; the two agree whenever at most one addition of the running sum rounds.)
\<close>

definition py_sum :: "pyfloat list \<Rightarrow> pyfloat" where
  "py_sum xs = foldl fadd 0 xs"

subsection \<open>The standard library: \<^verbatim>\<open>calendar\<close> and \<^verbatim>\<open>datetime\<close>\<close>

record date =
  d_year :: int
  d_month :: int
  d_day :: int

record datetime =
  dt_date :: date
  hour :: int
  minute :: int
  second :: int
  microsecond :: int

definition isleap :: "int \<Rightarrow> bool" where
  "isleap y = (y mod 4 = 0 \<and> (y mod 100 \<noteq> 0 \<or> y mod 400 = 0))"

text \<open>\<^verbatim>\<open>calendar.mdays\<close>, indexed by the month number.\<close>

definition mdays :: "int \<Rightarrow> int" where
  "mdays m =
     (if m = 2 then 28
      else if m = 4 \<or> m = 6 \<or> m = 9 \<or> m = 11 then 30
      else 31)"

text \<open>
  \<^verbatim>\<open>calendar.monthrange(year, month)[1]\<close>: the number of days of the month;
  \<^verbatim>\<open>IllegalMonthError\<close> (a \<^verbatim>\<open>ValueError\<close>) outside 1..12.
\<close>

definition monthrange_ndays :: "int \<Rightarrow> int \<Rightarrow> error + int" where
  "monthrange_ndays y m =
     (if \<not> (1 \<le> m \<and> m \<le> 12) then Inl ValueError
      else Inr (mdays m + (if m = 2 \<and> isleap y then 1 else 0)))"

text \<open>The constructors \<^verbatim>\<open>date(y, m, d)\<close> and \<^verbatim>\<open>datetime(y, m, d, ...)\<close> check their ranges.\<close>

definition valid_date :: "int \<Rightarrow> int \<Rightarrow> int \<Rightarrow> bool" where
  "valid_date y m d =
     (1 \<le> y \<and> y \<le> 9999 \<and> 1 \<le> m \<and> m \<le> 12 \<and> 1 \<le> d \<and>
      d \<le> mdays m + (if m = 2 \<and> isleap y then 1 else 0))"

definition mk_date :: "int \<Rightarrow> int \<Rightarrow> int \<Rightarrow> error + date" where
  "mk_date y m d =
     (if valid_date y m d then Inr \<lparr>d_year = y, d_month = m, d_day = d\<rparr> else Inl ValueError)"

definition mk_datetime :: "int \<Rightarrow> int \<Rightarrow> int \<Rightarrow> int \<Rightarrow> int \<Rightarrow> int \<Rightarrow> int \<Rightarrow> error + datetime" where
  "mk_datetime y m d hh mm ss us =
     (if valid_date y m d \<and> 0 \<le> hh \<and> hh \<le> 23 \<and> 0 \<le> mm \<and> mm \<le> 59 \<and> 0 \<le> ss \<and> ss \<le> 59
         \<and> 0 \<le> us \<and> us \<le> 999999
      then Inr \<lparr>dt_date = \<lparr>d_year = y, d_month = m, d_day = d\<rparr>,
                hour = hh, minute = mm, second = ss, microsecond = us\<rparr>
      else Inl ValueError)"

text \<open>Dates compare as the tuples (year, month, day).\<close>

definition date_lt :: "date \<Rightarrow> date \<Rightarrow> bool" where
  "date_lt a b =
     (d_year a < d_year b \<or> (d_year a = d_year b \<and>
        (d_month a < d_month b \<or> (d_month a = d_month b \<and> d_day a < d_day b))))"

text \<open>\<^verbatim>\<open>date.toordinal()\<close>: the day number, 1 for 0001-01-01.\<close>

definition days_before_year :: "int \<Rightarrow> int" where
  "days_before_year y = (y - 1) * 365 + (y - 1) div 4 - (y - 1) div 100 + (y - 1) div 400"

fun days_before_month_nat :: "int \<Rightarrow> nat \<Rightarrow> int" where
  "days_before_month_nat y 0 = 0"
| "days_before_month_nat y (Suc k) =
     (if k = 0 then 0
      else days_before_month_nat y k + mdays (int k) + (if k = 2 \<and> isleap y then 1 else 0))"

definition days_before_month :: "int \<Rightarrow> int \<Rightarrow> int" where
  "days_before_month y m = days_before_month_nat y (nat m)"

definition toordinal :: "date \<Rightarrow> int" where
  "toordinal d =
     days_before_year (d_year d) + days_before_month (d_year d) (d_month d) + d_day d"

text \<open>\<^verbatim>\<open>(a - b).days\<close> for two dates.\<close>

definition date_diff_days :: "date \<Rightarrow> date \<Rightarrow> int" where
  "date_diff_days a b = toordinal a - toordinal b"

text \<open>\<^verbatim>\<open>date.isoformat()\<close>: \<^verbatim>\<open>"%04d-%02d-%02d"\<close>.\<close>

definition digit_char :: "nat \<Rightarrow> char" where
  "digit_char n = ''0123456789'' ! n"

function str_nat :: "nat \<Rightarrow> string" where
  "str_nat n = (if n < 10 then [digit_char n] else str_nat (n div 10) @ [digit_char (n mod 10)])"
  by pat_completeness auto
termination
  by (relation "measure id") auto

declare str_nat.simps [simp del]

definition zfill :: "nat \<Rightarrow> string \<Rightarrow> string" where
  "zfill w s = replicate (w - length s) CHR ''0'' @ s"

definition isoformat :: "date \<Rightarrow> string" where
  "isoformat d =
     zfill 4 (str_nat (nat (d_year d))) @ ''-'' @ zfill 2 (str_nat (nat (d_month d))) @ ''-''
       @ zfill 2 (str_nat (nat (d_day d)))"

text \<open>
  \<^verbatim>\<open>str.split(sep)\<close> for a one-character separator, and \<^verbatim>\<open>int(s)\<close> on a string of
  ASCII digits. \<^verbatim>\<open>int\<close> also accepts surrounding whitespace, a sign, underscores and
  non-ASCII digits; those strings are \<^const>\<open>ValueError\<close> here. No stored plan has such a
  key: \<^verbatim>\<open>BudgetMonth.month\<close> has the pattern \<^verbatim>\<open>^\d{4}-\d{2}$\<close>.
\<close>

fun split_on :: "char \<Rightarrow> string \<Rightarrow> string list" where
  "split_on c [] = [[]]"
| "split_on c (x # xs) =
     (if x = c then [] # split_on c xs
      else (case split_on c xs of
              [] \<Rightarrow> [[x]]
            | w # ws \<Rightarrow> (x # w) # ws))"

definition is_digit :: "char \<Rightarrow> bool" where
  "is_digit c = ((48::nat) \<le> of_char c \<and> (of_char c :: nat) \<le> 57)"

definition py_int :: "string \<Rightarrow> error + int" where
  "py_int s =
     (if s = [] \<or> \<not> list_all is_digit s then Inl ValueError
      else Inr (foldl (\<lambda>acc c. acc * 10 + (int (of_char c) - 48)) 0 s))"

text \<open>\<^verbatim>\<open>year, m = map(int, month.split("-"))\<close>\<close>

definition parse_month :: "string \<Rightarrow> error + (int \<times> int)" where
  "parse_month s =
     (case split_on CHR ''-'' s of
        [a, b] \<Rightarrow>
          (case py_int a of
             Inl e \<Rightarrow> Inl e
           | Inr y \<Rightarrow> (case py_int b of Inl e \<Rightarrow> Inl e | Inr m \<Rightarrow> Inr (y, m)))
      | _ \<Rightarrow> Inl ValueError)"

subsection \<open>Documents (\<^verbatim>\<open>schemas.py\<close>)\<close>

record planned_expense =
  pe_name :: string
  pe_category :: string
  pe_amount :: pyfloat
  pe_due_day :: "int option"
  pe_recurring :: bool

text \<open>\<^verbatim>\<open>BudgetMonth\<close>, the request body, and what \<^verbatim>\<open>model_dump()\<close> gives for it.\<close>

record budget_month =
  bm_month :: string
  bm_income :: pyfloat
  bm_notes :: "string option"
  bm_planned_expenses :: "planned_expense list"

text \<open>
  The \<^verbatim>\<open>_id\<close> of a document is an \<^verbatim>\<open>ObjectId\<close> in the store and its
  \<^verbatim>\<open>str\<close> in a response.
\<close>

datatype oid = ObjectId string | OidStr string

text \<open>A document of the \<^verbatim>\<open>budgetmonth\<close> collection: the \<^verbatim>\<open>_id\<close> and the dumped fields.\<close>

record budget_doc =
  bd_id :: oid
  bd_month :: string
  bd_income :: pyfloat
  bd_notes :: "string option"
  bd_planned_expenses :: "planned_expense list"


record tx_doc =
  tx_id :: oid
  tx_amount :: pyfloat
  tx_category :: string
  tx_label :: "string option"
  tx_tx_date :: date
  tx_date :: string

text \<open>
  An alert. The \<^verbatim>\<open>message\<close> is kept as its template and the values that the f-string
  interpolates; the rendering of numbers as text (\<^verbatim>\<open>:.2f\<close>) is outside the model.
\<close>

datatype message =
    OverspendMsg string pyfloat pyfloat
  | LowBudgetMsg
  | DueSoonMsg string int

record alert =
  al_month :: string
  al_type :: string
  al_message :: message
  al_level :: string

subsection \<open>The store\<close>

record database =
  budgetmonth :: "budget_doc list"
  transaction :: "tx_doc list"

text \<open>
  Modelled from the spec: the storage collaborator (module \<^verbatim>\<open>database\<close>, not among the
  sources), with the operations that the handlers call on it. A collection is the list of
  its documents in insertion order.
  \<^verbatim>\<open>find_one({"month": month})\<close> gives the first document with that key;
  \<^verbatim>\<open>find({"date": {"$gte": lo, "$lte": hi}})\<close> gives the documents whose \<^verbatim>\<open>date\<close> string
  lies between the bounds, in string order; \<^verbatim>\<open>insert_one\<close> appends;
  \<^verbatim>\<open>update_one(filter, {"$set": fields}, upsert=True)\<close> sets the given fields of the first
  match and keeps its other fields, or inserts a new document when there is no match.
\<close>

definition find_one_month :: "budget_doc list \<Rightarrow> string \<Rightarrow> budget_doc option" where
  "find_one_month coll month = List.find (\<lambda>doc. bd_month doc = month) coll"

definition find_date_range :: "tx_doc list \<Rightarrow> string \<Rightarrow> string \<Rightarrow> tx_doc list" where
  "find_date_range coll lo hi = filter (\<lambda>t. lo \<le> tx_date t \<and> tx_date t \<le> hi) coll"

definition set_fields :: "budget_doc \<Rightarrow> budget_month \<Rightarrow> budget_doc" where
  "set_fields doc payload =
     doc\<lparr>bd_month := bm_month payload, bd_income := bm_income payload,
         bd_notes := bm_notes payload, bd_planned_expenses := bm_planned_expenses payload\<rparr>"

fun update_first :: "budget_doc list \<Rightarrow> string \<Rightarrow> budget_month \<Rightarrow> budget_doc list" where
  "update_first [] month payload = []"
| "update_first (doc # docs) month payload =
     (if bd_month doc = month then set_fields doc payload # docs
      else doc # update_first docs month payload)"

definition update_one_set_upsert ::
    "budget_doc list \<Rightarrow> oid \<Rightarrow> string \<Rightarrow> budget_month \<Rightarrow> budget_doc list" where
  "update_one_set_upsert coll new_id month payload =
     (if find_one_month coll month = None
      then coll @ [set_fields \<lparr>bd_id = new_id, bd_month = month, bd_income = 0,
                               bd_notes = None, bd_planned_expenses = []\<rparr> payload]
      else update_first coll month payload)"


subsection \<open>Insertion-ordered dictionaries\<close>

fun dict_get :: "('k \<times> 'v) list \<Rightarrow> 'k \<Rightarrow> 'v \<Rightarrow> 'v" where
  "dict_get [] k dflt = dflt"
| "dict_get ((k', v) # kvs) k dflt = (if k' = k then v else dict_get kvs k dflt)"

fun dict_set :: "('k \<times> 'v) list \<Rightarrow> 'k \<Rightarrow> 'v \<Rightarrow> ('k \<times> 'v) list" where
  "dict_set [] k v = [(k, v)]"
| "dict_set ((k', v') # kvs) k v =
     (if k' = k then (k', v) # kvs else (k', v') # dict_set kvs k v)"

subsection \<open>The handlers (\<^verbatim>\<open>main.py\<close>)\<close>

definition oid_str :: "budget_doc \<Rightarrow> budget_doc" where
  "oid_str doc =
     (case bd_id doc of
        ObjectId h \<Rightarrow> doc\<lparr>bd_id := OidStr h\<rparr>
      | OidStr h \<Rightarrow> doc)"

definition start_end_for_month :: "string \<Rightarrow> error + (datetime \<times> datetime)" where
  "start_end_for_month month =
     (case parse_month month of
        Inl e \<Rightarrow> Inl e
      | Inr (year, m) \<Rightarrow>
          (case mk_datetime year m 1 0 0 0 0 of
             Inl e \<Rightarrow> Inl e
           | Inr start \<Rightarrow>
               (case monthrange_ndays year m of
                  Inl e \<Rightarrow> Inl e
                | Inr last_day \<Rightarrow>
                    (case mk_datetime year m last_day 23 59 59 999000 of
                       Inl e \<Rightarrow> Inl e
                     | Inr end \<Rightarrow> Inr (start, end)))))"

text \<open>\<^verbatim>\<open>POST /api/budget/{month}\<close>. The \<^verbatim>\<open>_id\<close> of an inserted document is an argument.\<close>

record upsert_response =
  ok :: bool
  budget :: "budget_doc option"

definition upsert_budget ::
    "database option \<Rightarrow> oid \<Rightarrow> string \<Rightarrow> budget_month \<Rightarrow> error + (database \<times> upsert_response)" where
  "upsert_budget db new_id month payload =
     (if bm_month payload \<noteq> month
      then Inl (HTTPException 400 ''Path month and payload month must match'')
      else (case db of
              None \<Rightarrow> Inl (HTTPException 500 ''Database not available'')
            | Some d \<Rightarrow>
                (let d' = d\<lparr>budgetmonth := update_one_set_upsert (budgetmonth d) new_id month payload\<rparr>;
                     doc = find_one_month (budgetmonth d') month
                 in Inr (d', \<lparr>ok = True, budget = map_option oid_str doc\<rparr>))))"

text \<open>\<^verbatim>\<open>GET /api/budget/{month}\<close>\<close>

record metrics =
  income :: pyfloat
  planned_total :: pyfloat
  remaining_planned :: pyfloat
  actual_spent :: pyfloat
  remaining_actual :: pyfloat
  days_left :: int
  daily_limit :: pyfloat
  weekly_limit :: pyfloat
  planned_by_category :: "(string \<times> pyfloat) list"
  actual_by_category :: "(string \<times> pyfloat) list"

record budget_result =
  br_plan :: budget_doc
  br_metrics :: metrics

fun planned_by_cat_loop :: "planned_expense list \<Rightarrow> (string \<times> pyfloat) list \<Rightarrow> (string \<times> pyfloat) list" where
  "planned_by_cat_loop [] planned_by_cat = planned_by_cat"
| "planned_by_cat_loop (p # ps) planned_by_cat =
     planned_by_cat_loop ps
       (dict_set planned_by_cat (pe_category p)
          (fadd (dict_get planned_by_cat (pe_category p) 0) (pe_amount p)))"

fun actual_by_cat_loop :: "tx_doc list \<Rightarrow> (string \<times> pyfloat) list \<Rightarrow> (string \<times> pyfloat) list" where
  "actual_by_cat_loop [] actual_by_cat = actual_by_cat"
| "actual_by_cat_loop (t # ts) actual_by_cat =
     (let cat = tx_category t
      in actual_by_cat_loop ts
           (dict_set actual_by_cat cat (fadd (dict_get actual_by_cat cat 0) (tx_amount t))))"

definition compute_days_left :: "date \<Rightarrow> date \<Rightarrow> date \<Rightarrow> int" where
  "compute_days_left today first_date last_date =
     (if date_lt today first_date then date_diff_days last_date first_date + 1
      else if date_lt last_date today then 0
      else date_diff_days last_date today + 1)"

definition get_budget :: "database option \<Rightarrow> date \<Rightarrow> string \<Rightarrow> error + budget_result" where
  "get_budget db today month =
     (case db of
        None \<Rightarrow> Inl (HTTPException 500 ''Database not available'')
      | Some d \<Rightarrow>
     (case find_one_month (budgetmonth d) month of
        None \<Rightarrow> Inl (HTTPException 404 ''No plan for this month'')
      | Some plan \<Rightarrow>
     (let income = bd_income plan;
          planned_total = py_sum (map pe_amount (bd_planned_expenses plan))
      in
     (case start_end_for_month month of
        Inl e \<Rightarrow> Inl e
      | Inr (start, end) \<Rightarrow>
     (let actual_cursor =
            find_date_range (transaction d) (isoformat (dt_date start)) (isoformat (dt_date end));
          actual_total = py_sum (map tx_amount actual_cursor);
          remaining_actual = fsub income actual_total
      in
     (case parse_month month of
        Inl e \<Rightarrow> Inl e
      | Inr (current_year, current_month) \<Rightarrow>
     (case monthrange_ndays current_year current_month of
        Inl e \<Rightarrow> Inl e
      | Inr last_day \<Rightarrow>
     (case mk_date current_year current_month last_day of
        Inl e \<Rightarrow> Inl e
      | Inr last_date \<Rightarrow>
     (case mk_date current_year current_month 1 of
        Inl e \<Rightarrow> Inl e
      | Inr first_date \<Rightarrow>
     (let days_left = compute_days_left today first_date last_date;
          daily_limit = (if days_left > 0 then fdiv remaining_actual (of_int days_left) else 0);
          weekly_limit = fmul daily_limit 7;
          planned_by_cat = planned_by_cat_loop (bd_planned_expenses plan) [];
          tx_cursor =
            find_date_range (transaction d) (isoformat (dt_date start)) (isoformat (dt_date end));
          actual_by_cat = actual_by_cat_loop tx_cursor []
      in Inr \<lparr>br_plan = oid_str plan,
              br_metrics =
                \<lparr>income = income,
                 planned_total = planned_total,
                 remaining_planned = max (fsub income planned_total) 0,
                 actual_spent = actual_total,
                 remaining_actual = remaining_actual,
                 days_left = days_left,
                 daily_limit = daily_limit,
                 weekly_limit = weekly_limit,
                 planned_by_category = planned_by_cat,
                 actual_by_category = actual_by_cat\<rparr>\<rparr>))))))))))"


text \<open>
  \<^verbatim>\<open>GET /api/summary/{month}\<close>. After a 404 the metrics are the empty dictionary, here
  \<^const>\<open>None\<close>, and every \<^verbatim>\<open>metrics.get(key, default)\<close> gives its default.
\<close>

record summary =
  s_month :: string
  s_income :: pyfloat
  s_planned_total :: pyfloat
  s_actual_spent :: pyfloat
  s_remaining_actual :: pyfloat
  s_daily_limit :: pyfloat
  s_weekly_limit :: pyfloat
  s_planned_by_category :: "(string \<times> pyfloat) list"
  s_actual_by_category :: "(string \<times> pyfloat) list"

definition metrics_get :: "metrics option \<Rightarrow> (metrics \<Rightarrow> 'a) \<Rightarrow> 'a \<Rightarrow> 'a" where
  "metrics_get ms field dflt = (case ms of None \<Rightarrow> dflt | Some m \<Rightarrow> field m)"

definition month_summary :: "database option \<Rightarrow> date \<Rightarrow> string \<Rightarrow> error + summary" where
  "month_summary db today month =
     (case (case get_budget db today month of
              Inl e \<Rightarrow> (if status_code_of e = Some 404 then Inr None else Inl e)
            | Inr b \<Rightarrow> Inr (Some (br_metrics b))) of
        Inl e \<Rightarrow> Inl e
      | Inr ms \<Rightarrow>
          Inr \<lparr>s_month = month,
               s_income = metrics_get ms income 0,
               s_planned_total = metrics_get ms planned_total 0,
               s_actual_spent = metrics_get ms actual_spent 0,
               s_remaining_actual = metrics_get ms remaining_actual 0,
               s_daily_limit = metrics_get ms daily_limit 0,
               s_weekly_limit = metrics_get ms weekly_limit 0,
               s_planned_by_category = metrics_get ms planned_by_category [],
               s_actual_by_category = metrics_get ms actual_by_category []\<rparr>)"

text \<open>
  \<^verbatim>\<open>GET /api/alerts/{month}\<close>. The handler reads the clock after \<^verbatim>\<open>get_budget\<close> has read
  it: \<open>today0\<close> is the date \<^verbatim>\<open>get_budget\<close> sees, \<open>today\<close> the one the due-soon loop sees.
\<close>

fun overspend_loop ::
    "string \<Rightarrow> (string \<times> pyfloat) list \<Rightarrow> (string \<times> pyfloat) list \<Rightarrow> alert list \<Rightarrow> alert list" where
  "overspend_loop month actual_by_cat [] alerts = alerts"
| "overspend_loop month actual_by_cat ((cat, planned_amt) # items) alerts =
     (let actual_amt = dict_get actual_by_cat cat 0
      in if actual_amt > planned_amt \<and> planned_amt > 0
         then overspend_loop month actual_by_cat items
                (alerts @
                  [\<lparr>al_month = month,
                    al_type = ''overspend'',
                    al_message = OverspendMsg cat planned_amt actual_amt,
                    al_level = (if actual_amt \<le> fmul planned_amt (5 / 4) then ''warning''
                                else ''danger'')\<rparr>])
         else overspend_loop month actual_by_cat items alerts)"

definition low_budget_step :: "string \<Rightarrow> metrics \<Rightarrow> alert list \<Rightarrow> alert list" where
  "low_budget_step month ms alerts =
     (let remaining = remaining_actual ms;
          income' = income ms
      in if income' > 0
         then (let remaining_ratio = fdiv remaining income'
               in if remaining_ratio \<le> fl (1 / 10)
                  then alerts @
                         [\<lparr>al_month = month,
                           al_type = ''low_budget'',
                           al_message = LowBudgetMsg,
                           al_level = (if remaining > 0 then ''warning'' else ''danger'')\<rparr>]
                  else alerts)
         else alerts)"

fun due_soon_loop ::
    "string \<Rightarrow> date \<Rightarrow> int \<Rightarrow> int \<Rightarrow> int \<Rightarrow> planned_expense list \<Rightarrow> alert list
      \<Rightarrow> error + alert list" where
  "due_soon_loop month today year m last_day [] alerts = Inr alerts"
| "due_soon_loop month today year m last_day (p # ps) alerts =
     (case pe_due_day p of
        None \<Rightarrow> due_soon_loop month today year m last_day ps alerts
      | Some dd \<Rightarrow>
          if dd = 0 then due_soon_loop month today year m last_day ps alerts
          else
            (let due_day = min (max dd 1) last_day
             in case mk_date year m due_day of
                  Inl e \<Rightarrow> Inl e
                | Inr due_date \<Rightarrow>
                    (let days_until = date_diff_days due_date today
                     in if 0 \<le> days_until \<and> days_until \<le> 5
                        then due_soon_loop month today year m last_day ps
                               (alerts @
                                 [\<lparr>al_month = month,
                                   al_type = ''due_soon'',
                                   al_message = DueSoonMsg (pe_name p) days_until,
                                   al_level = (if days_until \<ge> 3 then ''info''
                                               else ''warning'')\<rparr>])
                        else due_soon_loop month today year m last_day ps alerts)))"

definition get_alerts :: "database option \<Rightarrow> date \<Rightarrow> date \<Rightarrow> string \<Rightarrow> error + alert list" where
  "get_alerts db today0 today month =
     (case db of
        None \<Rightarrow> Inl (HTTPException 500 ''Database not available'')
      | Some d \<Rightarrow>
     (case get_budget db today0 month of
        Inl e \<Rightarrow> (if status_code_of e = Some 404 then Inr [] else Inl e)
      | Inr data \<Rightarrow>
     (let plan = br_plan data;
          ms = br_metrics data;
          alerts = overspend_loop month (actual_by_category ms) (planned_by_category ms) [];
          alerts = low_budget_step month ms alerts
      in if bd_planned_expenses plan \<noteq> []
         then
           (case parse_month month of
              Inl e \<Rightarrow> Inl e
            | Inr (year, m) \<Rightarrow>
                (case monthrange_ndays year m of
                   Inl e \<Rightarrow> Inl e
                 | Inr last_day \<Rightarrow>
                     due_soon_loop month today year m last_day (bd_planned_expenses plan) alerts))
         else Inr alerts)))"

subsection \<open>The alert rules, one item at a time\<close>

text \<open>
  The three rules of the alert engine, each as the alerts (none or one) that it gives for
  one item: a planned category, the month's metrics, a planned expense. The loops of
  \<^verbatim>\<open>get_alerts\<close> are compared with them below.
\<close>

definition overspend_rule :: "string \<Rightarrow> (string \<times> pyfloat) list \<Rightarrow> string \<times> pyfloat \<Rightarrow> alert list" where
  "overspend_rule mo actual item =
     (let actual_amt = dict_get actual (fst item) 0
      in if actual_amt > snd item \<and> snd item > 0
         then [\<lparr>al_month = mo, al_type = ''overspend'',
                 al_message = OverspendMsg (fst item) (snd item) actual_amt,
                 al_level = (if actual_amt \<le> fmul (snd item) (5 / 4) then ''warning''
                             else ''danger'')\<rparr>]
         else [])"

definition low_budget_rule :: "string \<Rightarrow> pyfloat \<Rightarrow> pyfloat \<Rightarrow> alert list" where
  "low_budget_rule mo inc remaining =
     (if inc > 0 \<and> fdiv remaining inc \<le> fl (1 / 10)
      then [\<lparr>al_month = mo, al_type = ''low_budget'', al_message = LowBudgetMsg,
              al_level = (if remaining > 0 then ''warning'' else ''danger'')\<rparr>]
      else [])"

definition due_soon_rule :: "string \<Rightarrow> date \<Rightarrow> int \<Rightarrow> int \<Rightarrow> int \<Rightarrow> planned_expense \<Rightarrow> alert list" where
  "due_soon_rule mo ref y m n p =
     (case pe_due_day p of
        None \<Rightarrow> []
      | Some dd \<Rightarrow>
          if dd = 0 then []
          else (let days_until =
                      date_diff_days \<lparr>d_year = y, d_month = m, d_day = min (max dd 1) n\<rparr> ref
                in if 0 \<le> days_until \<and> days_until \<le> 5
                   then [\<lparr>al_month = mo, al_type = ''due_soon'',
                           al_message = DueSoonMsg (pe_name p) days_until,
                           al_level = (if days_until \<ge> 3 then ''info'' else ''warning'')\<rparr>]
                   else []))"

subsection \<open>The scenarios of the specification\<close>

text \<open>
  The plan of scenarios A and B (February 2024, income 1000, rent 1200 due on the 5th), the
  transaction of scenario B, and the reference date 2024-02-01.
\<close>

definition scen_rent :: planned_expense where
  "scen_rent = \<lparr>pe_name = ''Rent'', pe_category = ''rent'', pe_amount = 1200,
                 pe_due_day = Some 5, pe_recurring = True\<rparr>"

definition scen_plan :: budget_doc where
  "scen_plan = \<lparr>bd_id = ObjectId ''65c0'', bd_month = ''2024-02'', bd_income = 1000,
                 bd_notes = None, bd_planned_expenses = [scen_rent]\<rparr>"

definition scen_tx :: tx_doc where
  "scen_tx = \<lparr>tx_id = ObjectId ''65c1'', tx_amount = 1300, tx_category = ''rent'',
               tx_label = None, tx_tx_date = \<lparr>d_year = 2024, d_month = 2, d_day = 10\<rparr>,
               tx_date = ''2024-02-10''\<rparr>"

definition scen_db_a :: database where
  "scen_db_a = \<lparr>budgetmonth = [scen_plan], transaction = []\<rparr>"

definition scen_db_b :: database where
  "scen_db_b = \<lparr>budgetmonth = [scen_plan], transaction = [scen_tx]\<rparr>"

definition scen_today :: date where
  "scen_today = \<lparr>d_year = 2024, d_month = 2, d_day = 1\<rparr>"

definition scen_payload :: budget_month where
  "scen_payload = \<lparr>bm_month = ''2024-02'', bm_income = 2000, bm_notes = Some ''raise'',
                    bm_planned_expenses = []\<rparr>"



subsection \<open>Stores on which rounding shows\<close>

text \<open>
  Amounts written as decimals in a request are the doubles nearest to them: \<open>fl (1 / 10)\<close>
  is the float \<^verbatim>\<open>0.1\<close>. The reference date \<open>round_after\<close> lies after the month, so that
  \<^verbatim>\<open>days_left\<close> and both limits are 0.
\<close>

definition round_after :: date where
  "round_after = \<lparr>d_year = 2024, d_month = 3, d_day = 5\<rparr>"

definition round_tx :: "string \<Rightarrow> string \<Rightarrow> pyfloat \<Rightarrow> int \<Rightarrow> string \<Rightarrow> tx_doc" where
  "round_tx h cat a dd iso_date =
     \<lparr>tx_id = ObjectId h, tx_amount = a, tx_category = cat, tx_label = None,
      tx_tx_date = \<lparr>d_year = 2024, d_month = 2, d_day = dd\<rparr>, tx_date = iso_date\<rparr>"

text \<open>Planned 0.04 (\<open>1 / 25\<close>) for coffee, spent 0.05 (\<open>1 / 20\<close>).\<close>

definition round_db_overspend :: database where
  "round_db_overspend =
     \<lparr>budgetmonth =
        [\<lparr>bd_id = ObjectId ''65d0'', bd_month = ''2024-02'', bd_income = 1000, bd_notes = None,
          bd_planned_expenses =
            [\<lparr>pe_name = ''Coffee'', pe_category = ''coffee'', pe_amount = fl (1 / 25),
              pe_due_day = None, pe_recurring = True\<rparr>]\<rparr>],
      transaction = [round_tx ''65d1'' ''coffee'' (fl (1 / 20)) 10 ''2024-02-10'']\<rparr>"

text \<open>Income 14.9, spent 13.41.\<close>

definition round_db_low :: database where
  "round_db_low =
     \<lparr>budgetmonth =
        [\<lparr>bd_id = ObjectId ''65d2'', bd_month = ''2024-02'', bd_income = fl (149 / 10),
          bd_notes = None, bd_planned_expenses = []\<rparr>],
      transaction = [round_tx ''65d3'' ''misc'' (fl (1341 / 100)) 10 ''2024-02-10'']\<rparr>"






section \<open>Properties\<close>

subsection \<open>Binary64: what is exact\<close>

lemma fl_0 [simp]: "fl 0 = 0"
  by (simp add: fl_def)

lemma round_half_even_of_int [simp]: "round_half_even (of_int k) = k"
  by (simp add: round_half_even_def)

lemma pow2_pos: "0 < pow2 e"
  by (simp add: pow2_def)

lemma bitlen_bounds: "0 < n \<Longrightarrow> 2 ^ (bitlen n - 1) \<le> n \<and> n < 2 ^ bitlen n"
proof (induction n rule: bitlen.induct)
  case (1 n)
  show ?case
  proof (cases "n div 2 \<le> 0")
    case True
    with "1.prems" have "n = 1" by linarith
    moreover have "bitlen 1 = Suc 0"
      by (simp add: bitlen.simps [of 1] bitlen.simps [of 0])
    ultimately show ?thesis
      by simp
  next
    case False
    with "1.IH" "1.prems" have ih: "2 ^ (bitlen (n div 2) - 1) \<le> n div 2" "n div 2 < 2 ^ bitlen (n div 2)"
      by simp_all
    have pos: "0 < bitlen (n div 2)"
      using False by (simp add: bitlen.simps [of "n div 2"])
    have bl: "bitlen n = Suc (bitlen (n div 2))"
      using "1.prems" by (simp add: bitlen.simps [of n])
    from pos obtain k where k: "bitlen (n div 2) = Suc k"
      by (cases "bitlen (n div 2)") simp_all
    from ih k have "2 * 2 ^ k \<le> 2 * (n div 2)" "n < 2 * 2 ^ Suc k"
      by simp_all
    then have "2 ^ Suc k \<le> n" "n < 2 ^ Suc (Suc k)"
      by simp_all
    with bl k show ?thesis by simp
  qed
qed

text \<open>A rational that is a whole multiple of the spacing at its exponent is a double.\<close>

lemma fl_exact:
  assumes "x / pow2 (max (expo \<bar>x\<bar>) (- 1022) - 52) \<in> \<int>"
  shows "fl x = x"
proof (cases "x = 0")
  case True
  then show ?thesis by simp
next
  case False
  from assms obtain k where k: "x / pow2 (max (expo \<bar>x\<bar>) (- 1022) - 52) = of_int k"
    by (auto elim: Ints_cases)
  have "pow2 (max (expo \<bar>x\<bar>) (- 1022) - 52) \<noteq> 0"
    using pow2_pos [of "max (expo \<bar>x\<bar>) (- 1022) - 52"] by simp
  with k have "x = of_int k * pow2 (max (expo \<bar>x\<bar>) (- 1022) - 52)"
    by (simp add: field_simps)
  with False k show ?thesis
    by (simp add: fl_def Let_def)
qed

lemma expo_of_int: "1 \<le> n \<Longrightarrow> expo (of_int n) = int (bitlen n) - 1"
  by (simp add: expo_def)

text \<open>The integers up to \<open>2\<^sup>5\<^sup>3\<close> in absolute value are doubles.\<close>

lemma fl_of_int:
  assumes "\<bar>n\<bar> \<le> 2 ^ 53"
  shows "fl (of_int n) = of_int n"
proof (cases "n = 0")
  case True
  then show ?thesis by simp
next
  case False
  define a where "a = \<bar>n\<bar>"
  have a: "0 < a" "a \<le> 2 ^ 53"
    using False assms by (simp_all add: a_def)
  from bitlen_bounds [OF a(1)] have b: "2 ^ (bitlen a - 1) \<le> a" "a < 2 ^ bitlen a"
    by simp_all
  have blpos: "0 < bitlen a"
    using a(1) by (simp add: bitlen.simps [of a])
  from b(1) a(2) have "(2::int) ^ (bitlen a - 1) \<le> 2 ^ 53" by linarith
  then have le: "bitlen a - 1 \<le> 53"
    by (rule power_le_imp_le_exp [rotated]) simp
  have e: "expo \<bar>rat_of_int n\<bar> = int (bitlen a) - 1"
    using expo_of_int [of a] a(1) by (simp add: a_def)
  have m: "max (int (bitlen a) - 1) (- 1022) = int (bitlen a - 1)"
    using blpos by simp
  show ?thesis
  proof (rule fl_exact, unfold e m)
    show "rat_of_int n / pow2 (int (bitlen a - 1) - 52) \<in> \<int>"
    proof (cases "bitlen a - 1 \<le> 52")
      case True
      then have "pow2 (int (bitlen a - 1) - 52) = 1 / 2 ^ (52 - (bitlen a - 1))"
        by (auto simp: pow2_def nat_diff_distrib)
      then have "rat_of_int n / pow2 (int (bitlen a - 1) - 52) = of_int (n * 2 ^ (52 - (bitlen a - 1)))"
        by simp
      then show ?thesis by (simp only: Ints_of_int)
    next
      case False
      with le have k: "bitlen a - 1 = 53" by simp
      with b(1) a(2) have "a = 2 ^ 53" by simp
      then have "n = 2 ^ 53 \<or> n = - (2 ^ 53)" by (simp add: a_def abs_if split: if_splits)
      then have "rat_of_int n / 2 = of_int (n div 2)" by auto
      moreover have "int (bitlen a - 1) - 52 = 1"
        by (simp only: k)
      then have "pow2 (int (bitlen a - 1) - 52) = 2"
        by (simp only: pow2_def) simp
      ultimately show ?thesis by (simp only: Ints_of_int)
    qed
  qed
qed


lemma fl_numeral [simp]: "numeral k \<le> (2::int) ^ 53 \<Longrightarrow> fl (numeral k) = numeral k"
  using fl_of_int [of "numeral k"] by simp

lemma fl_neg_numeral [simp]: "numeral k \<le> (2::int) ^ 53 \<Longrightarrow> fl (- numeral k) = - numeral k"
  using fl_of_int [of "- numeral k"] by simp

lemma fl_1 [simp]: "fl 1 = 1"
  using fl_of_int [of 1] by simp






subsection \<open>What the handlers return\<close>

lemma monthrange_ndays_ge:
  "monthrange_ndays y m = Inr n \<Longrightarrow> 1 \<le> m \<and> m \<le> 12 \<and> 28 \<le> n \<and> n \<le> 31
     \<and> n = mdays m + (if m = 2 \<and> isleap y then 1 else 0)"
  by (auto simp: monthrange_ndays_def mdays_def split: if_splits)

lemma start_end_for_month_Inr:
  assumes "start_end_for_month mo = Inr (s, e)"
  shows "\<exists>y m n. parse_month mo = Inr (y, m) \<and> monthrange_ndays y m = Inr n
           \<and> 1 \<le> y \<and> y \<le> 9999
           \<and> dt_date s = \<lparr>d_year = y, d_month = m, d_day = 1\<rparr>
           \<and> dt_date e = \<lparr>d_year = y, d_month = m, d_day = n\<rparr>"
  using assms
  by (auto simp: start_end_for_month_def mk_datetime_def valid_date_def
           split: sum.splits prod.splits if_splits)


lemma get_budget_InrE:
  assumes "get_budget db today mo = Inr b"
  obtains d plan y m n txs where
    "db = Some d" "find_one_month (budgetmonth d) mo = Some plan"
    "parse_month mo = Inr (y, m)" "monthrange_ndays y m = Inr n"
    "1 \<le> y" "y \<le> 9999"
    "txs = find_date_range (transaction d)
             (isoformat \<lparr>d_year = y, d_month = m, d_day = 1\<rparr>)
             (isoformat \<lparr>d_year = y, d_month = m, d_day = n\<rparr>)"
    "br_plan b = oid_str plan"
    "income (br_metrics b) = bd_income plan"
    "planned_total (br_metrics b) = py_sum (map pe_amount (bd_planned_expenses plan))"
    "remaining_planned (br_metrics b) =
       max (fsub (bd_income plan) (py_sum (map pe_amount (bd_planned_expenses plan)))) 0"
    "actual_spent (br_metrics b) = py_sum (map tx_amount txs)"
    "remaining_actual (br_metrics b) = fsub (bd_income plan) (py_sum (map tx_amount txs))"
    "days_left (br_metrics b) =
       compute_days_left today \<lparr>d_year = y, d_month = m, d_day = 1\<rparr>
         \<lparr>d_year = y, d_month = m, d_day = n\<rparr>"
    "daily_limit (br_metrics b) =
       (if days_left (br_metrics b) > 0
        then fdiv (remaining_actual (br_metrics b)) (of_int (days_left (br_metrics b))) else 0)"
    "weekly_limit (br_metrics b) = fmul (daily_limit (br_metrics b)) 7"
    "planned_by_category (br_metrics b) = planned_by_cat_loop (bd_planned_expenses plan) []"
    "actual_by_category (br_metrics b) = actual_by_cat_loop txs []"
proof -
  from assms obtain d where d: "db = Some d"
    by (auto simp: get_budget_def split: option.splits)
  from assms d obtain plan where plan: "find_one_month (budgetmonth d) mo = Some plan"
    by (auto simp: get_budget_def split: option.splits)
  from assms d plan obtain s e where se: "start_end_for_month mo = Inr (s, e)"
    by (auto simp: get_budget_def Let_def split: sum.splits)
  from start_end_for_month_Inr [OF se] obtain y m n where
    ymn: "parse_month mo = Inr (y, m)" "monthrange_ndays y m = Inr n" "1 \<le> y" "y \<le> 9999"
      "dt_date s = \<lparr>d_year = y, d_month = m, d_day = 1\<rparr>"
      "dt_date e = \<lparr>d_year = y, d_month = m, d_day = n\<rparr>"
    by blast
  from assms d plan se ymn have
    "b = \<lparr>br_plan = oid_str plan,
          br_metrics =
            (let income = bd_income plan;
                 planned_total = py_sum (map pe_amount (bd_planned_expenses plan));
                 txs = find_date_range (transaction d)
                   (isoformat \<lparr>d_year = y, d_month = m, d_day = 1\<rparr>)
                   (isoformat \<lparr>d_year = y, d_month = m, d_day = n\<rparr>);
                 actual_total = py_sum (map tx_amount txs);
                 remaining_actual = fsub income actual_total;
                 days_left = compute_days_left today \<lparr>d_year = y, d_month = m, d_day = 1\<rparr>
                      \<lparr>d_year = y, d_month = m, d_day = n\<rparr>;
                 daily_limit = (if days_left > 0 then fdiv remaining_actual (of_int days_left) else 0)
             in \<lparr>income = income,
                 planned_total = planned_total,
                 remaining_planned = max (fsub income planned_total) 0,
                 actual_spent = actual_total,
                 remaining_actual = remaining_actual,
                 days_left = days_left,
                 daily_limit = daily_limit,
                 weekly_limit = fmul daily_limit 7,
                 planned_by_category = planned_by_cat_loop (bd_planned_expenses plan) [],
                 actual_by_category = actual_by_cat_loop txs []\<rparr>)\<rparr>"
    by (simp add: get_budget_def Let_def mk_date_def split: if_splits)
  then have "br_plan b = oid_str plan"
    and "income (br_metrics b) = bd_income plan"
    and "planned_total (br_metrics b) = py_sum (map pe_amount (bd_planned_expenses plan))"
    and "remaining_planned (br_metrics b) =
       max (fsub (bd_income plan) (py_sum (map pe_amount (bd_planned_expenses plan)))) 0"
    and "actual_spent (br_metrics b) = py_sum (map tx_amount (find_date_range (transaction d)
             (isoformat \<lparr>d_year = y, d_month = m, d_day = 1\<rparr>)
             (isoformat \<lparr>d_year = y, d_month = m, d_day = n\<rparr>)))"
    and "remaining_actual (br_metrics b) = fsub (bd_income plan) (py_sum (map tx_amount
          (find_date_range (transaction d)
             (isoformat \<lparr>d_year = y, d_month = m, d_day = 1\<rparr>)
             (isoformat \<lparr>d_year = y, d_month = m, d_day = n\<rparr>))))"
    and "days_left (br_metrics b) =
       compute_days_left today \<lparr>d_year = y, d_month = m, d_day = 1\<rparr>
         \<lparr>d_year = y, d_month = m, d_day = n\<rparr>"
    and "daily_limit (br_metrics b) =
       (if days_left (br_metrics b) > 0
        then fdiv (remaining_actual (br_metrics b)) (of_int (days_left (br_metrics b))) else 0)"
    and "weekly_limit (br_metrics b) = fmul (daily_limit (br_metrics b)) 7"
    and "planned_by_category (br_metrics b) = planned_by_cat_loop (bd_planned_expenses plan) []"
    and "actual_by_category (br_metrics b) = actual_by_cat_loop (find_date_range (transaction d)
             (isoformat \<lparr>d_year = y, d_month = m, d_day = 1\<rparr>)
             (isoformat \<lparr>d_year = y, d_month = m, d_day = n\<rparr>)) []"
    by (simp_all add: Let_def)
  with d plan ymn(1-4) show thesis
    by (rule that [OF _ _ _ _ _ _ refl])
qed


subsection \<open>The loops and the rules\<close>

lemma overspend_loop_rule:
  "overspend_loop mo actual items acc = acc @ concat (map (overspend_rule mo actual) items)"
  by (induction items arbitrary: acc) (auto simp: overspend_rule_def Let_def)

lemma low_budget_step_rule:
  "low_budget_step mo ms acc = acc @ low_budget_rule mo (income ms) (remaining_actual ms)"
  by (simp add: low_budget_step_def low_budget_rule_def Let_def)

lemma due_soon_loop_step:
  assumes "due_soon_loop mo ref y m n (p # ps) acc = Inr r"
  shows "due_soon_loop mo ref y m n ps (acc @ due_soon_rule mo ref y m n p) = Inr r"
proof (cases "pe_due_day p")
  case None
  with assms show ?thesis by (simp add: due_soon_rule_def)
next
  case (Some dd)
  show ?thesis
  proof (cases "dd = 0")
    case True
    with Some assms show ?thesis by (simp add: due_soon_rule_def)
  next
    case False
    with Some assms have "valid_date y m (min (max dd 1) n)"
      by (auto simp: mk_date_def Let_def split: if_splits)
    with False Some assms show ?thesis
      by (auto simp: mk_date_def Let_def due_soon_rule_def split: if_splits)
  qed
qed

lemma due_soon_loop_rule:
  "due_soon_loop mo ref y m n ps acc = Inr r \<Longrightarrow>
     r = acc @ concat (map (due_soon_rule mo ref y m n) ps)"
proof (induction ps arbitrary: acc)
  case Nil
  then show ?case by simp
next
  case (Cons p ps)
  from Cons.IH [OF due_soon_loop_step [OF Cons.prems]] show ?case by simp
qed

lemma due_soon_loop_total:
  assumes "1 \<le> y" "y \<le> 9999" "monthrange_ndays y m = Inr n"
  shows "\<exists>r. due_soon_loop mo ref y m n ps acc = Inr r"
proof -
  from monthrange_ndays_ge [OF assms(3)] have n: "1 \<le> m" "m \<le> 12" "28 \<le> n"
    "n = mdays m + (if m = 2 \<and> isleap y then 1 else 0)" by auto
  have v: "valid_date y m (min (max dd 1) n)" for dd
    using assms(1,2) n by (auto simp: valid_date_def)
  show ?thesis
    by (induction ps arbitrary: acc)
       (auto simp: mk_date_def v Let_def split: option.splits)
qed

lemma overspend_rule_type: "a \<in> set (overspend_rule mo actual item) \<Longrightarrow> al_type a = ''overspend''"
  by (auto simp: overspend_rule_def Let_def split: if_splits)

lemma low_budget_rule_type: "a \<in> set (low_budget_rule mo inc remaining) \<Longrightarrow> al_type a = ''low_budget''"
  by (auto simp: low_budget_rule_def split: if_splits)

lemma due_soon_rule_type: "a \<in> set (due_soon_rule mo ref y m n p) \<Longrightarrow> al_type a = ''due_soon''"
  by (auto simp: due_soon_rule_def Let_def split: if_splits option.splits)

lemma get_alerts_Inr:
  assumes "get_alerts db today0 today mo = Inr alerts" "get_budget db today0 mo = Inr b"
    "parse_month mo = Inr (y, m)" "monthrange_ndays y m = Inr n"
  shows "alerts =
           concat (map (overspend_rule mo (actual_by_category (br_metrics b)))
                    (planned_by_category (br_metrics b)))
           @ low_budget_rule mo (income (br_metrics b)) (remaining_actual (br_metrics b))
           @ concat (map (due_soon_rule mo today y m n) (bd_planned_expenses (br_plan b)))"
proof -
  from assms(2) obtain d where d: "db = Some d"
    by (auto simp: get_budget_def split: option.splits)
  show ?thesis
  proof (cases "bd_planned_expenses (br_plan b) = []")
    case True
    with assms d show ?thesis
      by (simp add: get_alerts_def Let_def overspend_loop_rule low_budget_step_rule)
  next
    case False
    with assms d have
      "due_soon_loop mo today y m n (bd_planned_expenses (br_plan b))
         (concat (map (overspend_rule mo (actual_by_category (br_metrics b)))
                    (planned_by_category (br_metrics b)))
           @ low_budget_rule mo (income (br_metrics b)) (remaining_actual (br_metrics b)))
       = Inr alerts"
      by (simp add: get_alerts_def Let_def overspend_loop_rule low_budget_step_rule)
    from due_soon_loop_rule [OF this] show ?thesis by simp
  qed
qed

lemma get_alerts_total:
  assumes "get_budget db today0 mo = Inr b"
  shows "\<exists>alerts. get_alerts db today0 today mo = Inr alerts"
proof -
  from assms obtain d y m n where d: "db = Some d" "parse_month mo = Inr (y, m)"
    "monthrange_ndays y m = Inr n" "1 \<le> y" "y \<le> 9999"
    by (rule get_budget_InrE)
  from due_soon_loop_total [OF d(4,5,3)] d(1,2,3) assms show ?thesis
    by (simp add: get_alerts_def Let_def)
qed

subsection \<open>The scenarios, evaluated\<close>

lemma scen_parse: "parse_month ''2024-02'' = Inr (2024, 2)"
  by (simp add: parse_month_def py_int_def is_digit_def)

lemma scen_monthrange: "monthrange_ndays 2024 2 = Inr 29"
  by (simp add: monthrange_ndays_def mdays_def isleap_def)

lemma scen_start_end:
  "start_end_for_month ''2024-02'' =
     Inr (\<lparr>dt_date = \<lparr>d_year = 2024, d_month = 2, d_day = 1\<rparr>,
            hour = 0, minute = 0, second = 0, microsecond = 0\<rparr>,
          \<lparr>dt_date = \<lparr>d_year = 2024, d_month = 2, d_day = 29\<rparr>,
            hour = 23, minute = 59, second = 59, microsecond = 999000\<rparr>)"
  by (simp add: start_end_for_month_def scen_parse scen_monthrange mk_datetime_def
        valid_date_def mdays_def isleap_def)

lemma scen_iso_first: "isoformat \<lparr>d_year = 2024, d_month = 2, d_day = 1\<rparr> = ''2024-02-01''"
  by (simp add: isoformat_def zfill_def str_nat.simps digit_char_def)

lemma scen_iso_last: "isoformat \<lparr>d_year = 2024, d_month = 2, d_day = 29\<rparr> = ''2024-02-29''"
  by (simp add: isoformat_def zfill_def str_nat.simps digit_char_def)


lemma scen_find_b:
  "find_date_range (transaction scen_db_b) ''2024-02-01'' ''2024-02-29'' = [scen_tx]"
  by (simp add: find_date_range_def scen_db_b_def scen_tx_def)

lemma scen_ord_first: "toordinal \<lparr>d_year = 2024, d_month = 2, d_day = 1\<rparr> = 738917"
  by (simp add: toordinal_def days_before_year_def days_before_month_def mdays_def isleap_def
        eval_nat_numeral)

lemma scen_ord_last: "toordinal \<lparr>d_year = 2024, d_month = 2, d_day = 29\<rparr> = 738945"
  by (simp add: toordinal_def days_before_year_def days_before_month_def mdays_def isleap_def
        eval_nat_numeral)

lemma scen_days_left:
  "compute_days_left scen_today \<lparr>d_year = 2024, d_month = 2, d_day = 1\<rparr>
     \<lparr>d_year = 2024, d_month = 2, d_day = 29\<rparr> = 29"
  by (simp add: compute_days_left_def date_lt_def scen_today_def date_diff_days_def
        scen_ord_first scen_ord_last)

lemma scen_get_budget_b:
  "get_budget (Some scen_db_b) scen_today ''2024-02'' =
     Inr \<lparr>br_plan = scen_plan\<lparr>bd_id := OidStr ''65c0''\<rparr>,
          br_metrics =
            \<lparr>income = 1000, planned_total = 1200, remaining_planned = 0,
             actual_spent = 1300, remaining_actual = - 300, days_left = 29,
             daily_limit = fdiv (- 300) 29, weekly_limit = fmul (fdiv (- 300) 29) 7,
             planned_by_category = [(''rent'', 1200)],
             actual_by_category = [(''rent'', 1300)]\<rparr>\<rparr>"
proof -
  have plan: "find_one_month (budgetmonth scen_db_b) ''2024-02'' = Some scen_plan"
    by (simp add: find_one_month_def scen_db_b_def scen_plan_def)
  have valid: "valid_date 2024 2 29" "valid_date 2024 2 1"
    by (simp_all add: valid_date_def mdays_def isleap_def)
  show ?thesis
    by (simp add: get_budget_def plan scen_start_end scen_parse scen_monthrange mk_date_def
          valid scen_iso_first scen_iso_last scen_find_b scen_days_left oid_str_def
          scen_plan_def scen_rent_def scen_tx_def Let_def py_sum_def fadd_def fsub_def)
qed



subsection \<open>The stores on which rounding shows, evaluated\<close>

lemma round_days_left:
  "compute_days_left round_after \<lparr>d_year = 2024, d_month = 2, d_day = 1\<rparr>
     \<lparr>d_year = 2024, d_month = 2, d_day = 29\<rparr> = 0"
  by (simp add: compute_days_left_def date_lt_def round_after_def)





lemma round_get_budget_overspend:
  "get_budget (Some round_db_overspend) round_after ''2024-02'' =
     Inr \<lparr>br_plan =
            \<lparr>bd_id = OidStr ''65d0'', bd_month = ''2024-02'', bd_income = 1000,
             bd_notes = None,
             bd_planned_expenses =
               [\<lparr>pe_name = ''Coffee'', pe_category = ''coffee'', pe_amount = fl (1 / 25),
                 pe_due_day = None, pe_recurring = True\<rparr>]\<rparr>,
          br_metrics =
            \<lparr>income = 1000,
             planned_total = 5764607523034235 / 144115188075855872,
             remaining_planned = 1099467647310889 / 1099511627776,
             actual_spent = 3602879701896397 / 72057594037927936,
             remaining_actual = 4397826608778445 / 4398046511104,
             days_left = 0, daily_limit = 0, weekly_limit = 0,
             planned_by_category = [(''coffee'', 5764607523034235 / 144115188075855872)],
             actual_by_category = [(''coffee'', 3602879701896397 / 72057594037927936)]\<rparr>\<rparr>"
proof -
  have plan: "find_one_month (budgetmonth round_db_overspend) ''2024-02'' =
      Some \<lparr>bd_id = ObjectId ''65d0'', bd_month = ''2024-02'', bd_income = 1000,
             bd_notes = None,
             bd_planned_expenses =
               [\<lparr>pe_name = ''Coffee'', pe_category = ''coffee'', pe_amount = fl (1 / 25),
                 pe_due_day = None, pe_recurring = True\<rparr>]\<rparr>"
    by (simp add: find_one_month_def round_db_overspend_def)
  have valid: "valid_date 2024 2 29" "valid_date 2024 2 1"
    by (simp_all add: valid_date_def mdays_def isleap_def)
  have found:
    "find_date_range (transaction round_db_overspend) ''2024-02-01'' ''2024-02-29'' =
       [round_tx ''65d1'' ''coffee'' (fl (1 / 20)) 10 ''2024-02-10'']"
    by (simp add: find_date_range_def round_db_overspend_def round_tx_def)
  have planned: "py_sum [fl (1 / 25)] = 5764607523034235 / 144115188075855872"
    by code_simp
  have left: "max (fsub 1000 (5764607523034235 / 144115188075855872)) 0 =
      1099467647310889 / 1099511627776"
    by code_simp
  have total: "py_sum [fl (1 / 20)] = 3602879701896397 / 72057594037927936"
    by code_simp
  have rest: "fsub 1000 (3602879701896397 / 72057594037927936) =
      4397826608778445 / 4398046511104"
    by code_simp
  have p: "fadd 0 (fl (1 / 25)) = 5764607523034235 / 144115188075855872"
    by code_simp
  have c: "fadd 0 (fl (1 / 20)) = 3602879701896397 / 72057594037927936"
    by code_simp
  show ?thesis
    by (simp add: get_budget_def plan scen_start_end scen_parse scen_monthrange mk_date_def
          valid scen_iso_first scen_iso_last found round_days_left oid_str_def
          round_tx_def Let_def planned left total rest p c fmul_def [of 0 7])
qed

lemma round_get_alerts_overspend:
  "get_alerts (Some round_db_overspend) round_after round_after ''2024-02'' =
     Inr [\<lparr>al_month = ''2024-02'', al_type = ''overspend'',
            al_message =
              OverspendMsg ''coffee'' (5764607523034235 / 144115188075855872)
                (3602879701896397 / 72057594037927936),
            al_level = ''warning''\<rparr>]"
proof -
  have product: "fmul (5764607523034235 / 144115188075855872) (5 / 4) =
      3602879701896397 / 72057594037927936"
    by code_simp
  have ratio: "\<not> fdiv (4397826608778445 / 4398046511104) 1000 \<le> fl (1 / 10)"
    by code_simp
  show ?thesis
    by (simp add: get_alerts_def round_get_budget_overspend scen_parse scen_monthrange
          low_budget_step_def Let_def product ratio)
qed

lemma round_get_budget_low:
  "get_budget (Some round_db_low) round_after ''2024-02'' =
     Inr \<lparr>br_plan =
            \<lparr>bd_id = OidStr ''65d2'', bd_month = ''2024-02'', bd_income = fl (149 / 10),
             bd_notes = None, bd_planned_expenses = []\<rparr>,
          br_metrics =
            \<lparr>income = fl (149 / 10), planned_total = 0, remaining_planned = fl (149 / 10),
             actual_spent = 3774579437689897 / 281474976710656,
             remaining_actual = 838795430597755 / 562949953421312,
             days_left = 0, daily_limit = 0, weekly_limit = 0,
             planned_by_category = [],
             actual_by_category = [(''misc'', 3774579437689897 / 281474976710656)]\<rparr>\<rparr>"
proof -
  have plan: "find_one_month (budgetmonth round_db_low) ''2024-02'' =
      Some \<lparr>bd_id = ObjectId ''65d2'', bd_month = ''2024-02'', bd_income = fl (149 / 10),
             bd_notes = None, bd_planned_expenses = []\<rparr>"
    by (simp add: find_one_month_def round_db_low_def)
  have valid: "valid_date 2024 2 29" "valid_date 2024 2 1"
    by (simp_all add: valid_date_def mdays_def isleap_def)
  have found:
    "find_date_range (transaction round_db_low) ''2024-02-01'' ''2024-02-29'' =
       [round_tx ''65d3'' ''misc'' (fl (1341 / 100)) 10 ''2024-02-10'']"
    by (simp add: find_date_range_def round_db_low_def round_tx_def)
  have left: "max (fsub (fl (149 / 10)) 0) 0 = fl (149 / 10)"
    by code_simp
  have total: "py_sum [fl (1341 / 100)] = 3774579437689897 / 281474976710656"
    by code_simp
  have rest: "fsub (fl (149 / 10)) (3774579437689897 / 281474976710656) =
      838795430597755 / 562949953421312"
    by code_simp
  have c: "fadd 0 (fl (1341 / 100)) = 3774579437689897 / 281474976710656"
    by code_simp
  show ?thesis
    by (simp add: get_budget_def plan scen_start_end scen_parse scen_monthrange mk_date_def
          valid scen_iso_first scen_iso_last found round_days_left oid_str_def
          round_tx_def Let_def left total rest c py_sum_def [of "[]"] fmul_def [of 0 7])
qed

lemma round_get_alerts_low:
  "get_alerts (Some round_db_low) round_after round_after ''2024-02'' =
     Inr [\<lparr>al_month = ''2024-02'', al_type = ''low_budget'',
            al_message = LowBudgetMsg, al_level = ''warning''\<rparr>]"
proof -
  have pos: "0 < fl (149 / 10)"
    by code_simp
  have ratio: "fdiv (838795430597755 / 562949953421312) (fl (149 / 10)) \<le> fl (1 / 10)"
    by code_simp
  show ?thesis
    by (simp add: get_alerts_def round_get_budget_low low_budget_step_def Let_def pos ratio)
qed

subsection \<open>Dictionaries\<close>

lemma dict_set_keys:
  "map fst (dict_set kvs k v) = (if k \<in> fst ` set kvs then map fst kvs else map fst kvs @ [k])"
  by (induction kvs) force+

lemma dict_set_distinct: "distinct (map fst kvs) \<Longrightarrow> distinct (map fst (dict_set kvs k v))"
  by (simp add: dict_set_keys)






lemma planned_by_cat_loop_distinct:
  "distinct (map fst acc) \<Longrightarrow> distinct (map fst (planned_by_cat_loop ps acc))"
  by (induction ps arbitrary: acc) (simp_all add: dict_set_distinct)



subsection \<open>Metrics\<close>








subsection \<open>A month without a plan\<close>

text \<open>
  Claim C7. With the store available and no plan for the month, \<^verbatim>\<open>get_budget\<close> fails
  with status 404, \<^verbatim>\<open>month_summary\<close> returns the summary of zeros and empty
  dictionaries, and \<^verbatim>\<open>get_alerts\<close> returns the empty list.
\<close>

theorem absent_plan_asymmetry:
  assumes "db = Some d" "find_one_month (budgetmonth d) mo = None"
  shows "get_budget db today mo = Inl (HTTPException 404 ''No plan for this month'')
       \<and> month_summary db today mo =
           Inr \<lparr>s_month = mo, s_income = 0, s_planned_total = 0, s_actual_spent = 0,
                s_remaining_actual = 0, s_daily_limit = 0, s_weekly_limit = 0,
                s_planned_by_category = [], s_actual_by_category = []\<rparr>
       \<and> get_alerts db today0 today mo = Inr []"
  using assms
  by (simp add: get_budget_def month_summary_def get_alerts_def metrics_get_def)

theorem absent_plan_asymmetry_witness:
  "find_one_month (budgetmonth scen_db_a) ''2099-01'' = None
   \<and> get_budget (Some scen_db_a) scen_today ''2099-01''
       = Inl (HTTPException 404 ''No plan for this month'')
   \<and> (\<exists>s. month_summary (Some scen_db_a) scen_today ''2099-01'' = Inr s \<and> s_income s = 0)
   \<and> get_alerts (Some scen_db_a) scen_today scen_today ''2099-01'' = Inr []"
proof -
  have h: "find_one_month (budgetmonth scen_db_a) ''2099-01'' = None"
    by (simp add: find_one_month_def scen_db_a_def scen_plan_def)
  from absent_plan_asymmetry [OF refl h] h show ?thesis by simp
qed

lemma get_budget_month_ok:
  assumes "get_budget db today0 mo = Inr b"
  obtains y m n where "parse_month mo = Inr (y, m)" "monthrange_ndays y m = Inr n"
  using assms by (rule get_budget_InrE)

subsection \<open>Alerts\<close>

text \<open>
  Claim C3, as the code has it. Among the alerts of one call, those of type
  \<^verbatim>\<open>low_budget\<close> are: exactly one, with level \<^verbatim>\<open>warning\<close> when \<^verbatim>\<open>remaining_actual > 0\<close> and
  \<^verbatim>\<open>danger\<close> otherwise, when \<^verbatim>\<open>income > 0\<close> and the binary64 quotient
  \<^verbatim>\<open>remaining_actual / income\<close> is at most the double \<^verbatim>\<open>0.1\<close>; none otherwise, so none
  when \<^verbatim>\<open>income = 0\<close>.
\<close>

theorem low_budget_alert_iff:
  assumes "get_alerts db today0 today mo = Inr alerts" "get_budget db today0 mo = Inr b"
  shows "filter (\<lambda>a. al_type a = ''low_budget'') alerts =
           (if income (br_metrics b) > 0
               \<and> fdiv (remaining_actual (br_metrics b)) (income (br_metrics b)) \<le> fl (1 / 10)
            then [\<lparr>al_month = mo, al_type = ''low_budget'', al_message = LowBudgetMsg,
                    al_level = (if remaining_actual (br_metrics b) > 0 then ''warning''
                                else ''danger'')\<rparr>]
            else [])
       \<and> (income (br_metrics b) = 0 \<longrightarrow> filter (\<lambda>a. al_type a = ''low_budget'') alerts = [])"
proof -
  from assms(2) obtain y m n where
    ym: "parse_month mo = Inr (y, m)" "monthrange_ndays y m = Inr n"
    by (rule get_budget_month_ok)
  have ov: "filter (\<lambda>a. al_type a = ''low_budget'')
      (concat (map (overspend_rule mo (actual_by_category (br_metrics b)))
         (planned_by_category (br_metrics b)))) = []"
    by (auto simp: filter_empty_conv dest: overspend_rule_type)
  have ds: "filter (\<lambda>a. al_type a = ''low_budget'')
      (concat (map (due_soon_rule mo today y m n) (bd_planned_expenses (br_plan b)))) = []"
    by (auto simp: filter_empty_conv dest: due_soon_rule_type)
  have "filter (\<lambda>a. al_type a = ''low_budget'') alerts =
      low_budget_rule mo (income (br_metrics b)) (remaining_actual (br_metrics b))"
    unfolding get_alerts_Inr [OF assms ym] filter_append ov ds
    by (simp add: low_budget_rule_def)
  then show ?thesis
    by (simp add: low_budget_rule_def)
qed

lemma scen_ord_due: "toordinal \<lparr>d_year = 2024, d_month = 2, d_day = 5\<rparr> = 738921"
  by (simp add: toordinal_def days_before_year_def days_before_month_def mdays_def isleap_def
        eval_nat_numeral)

lemma scen_get_alerts_b:
  "get_alerts (Some scen_db_b) scen_today scen_today ''2024-02'' =
     Inr [\<lparr>al_month = ''2024-02'', al_type = ''overspend'',
            al_message = OverspendMsg ''rent'' 1200 1300, al_level = ''warning''\<rparr>,
          \<lparr>al_month = ''2024-02'', al_type = ''low_budget'',
            al_message = LowBudgetMsg, al_level = ''danger''\<rparr>,
          \<lparr>al_month = ''2024-02'', al_type = ''due_soon'',
            al_message = DueSoonMsg ''Rent'' 4, al_level = ''info''\<rparr>]"
proof -
  have valid: "valid_date 2024 2 5"
    by (simp add: valid_date_def mdays_def isleap_def)
  have diff: "date_diff_days \<lparr>d_year = 2024, d_month = 2, d_day = 5\<rparr> scen_today = 4"
    by (simp add: date_diff_days_def scen_today_def scen_ord_due scen_ord_first)
  have product: "fmul 1200 (5 / 4) = 1500"
    by (simp add: fmul_def)
  have ratio: "fdiv (- 300) 1000 \<le> fl (1 / 10)"
    by code_simp
  show ?thesis
    by (simp add: get_alerts_def scen_get_budget_b scen_parse scen_monthrange
          low_budget_step_def scen_plan_def scen_rent_def mk_date_def valid diff Let_def
          product ratio)
qed

theorem low_budget_alert_iff_witness:
  "\<exists>alerts b.
     get_alerts (Some scen_db_b) scen_today scen_today ''2024-02'' = Inr alerts
     \<and> get_budget (Some scen_db_b) scen_today ''2024-02'' = Inr b
     \<and> income (br_metrics b) = 1000 \<and> remaining_actual (br_metrics b) = - 300
     \<and> filter (\<lambda>a. al_type a = ''low_budget'') alerts =
         [\<lparr>al_month = ''2024-02'', al_type = ''low_budget'',
            al_message = LowBudgetMsg, al_level = ''danger''\<rparr>]"
  using low_budget_alert_iff [OF scen_get_alerts_b scen_get_budget_b]
  by (simp add: scen_get_alerts_b scen_get_budget_b)

text \<open>
  The test is not \<open>remaining_actual / income \<le> 1 / 10\<close>: with income 14.9 and 13.41 spent,
  \<^verbatim>\<open>remaining_actual\<close> is 1.4900000000000002, the exact quotient exceeds both one tenth
  and the double \<^verbatim>\<open>0.1\<close>, and the alert is raised, since the quotient rounds to \<^verbatim>\<open>0.1\<close>.
\<close>

theorem low_budget_alert_iff_counterexample:
  "get_alerts (Some round_db_low) round_after round_after ''2024-02'' =
     Inr [\<lparr>al_month = ''2024-02'', al_type = ''low_budget'',
            al_message = LowBudgetMsg, al_level = ''warning''\<rparr>]
   \<and> get_budget (Some round_db_low) round_after ''2024-02'' =
     Inr \<lparr>br_plan =
            \<lparr>bd_id = OidStr ''65d2'', bd_month = ''2024-02'', bd_income = fl (149 / 10),
             bd_notes = None, bd_planned_expenses = []\<rparr>,
          br_metrics =
            \<lparr>income = fl (149 / 10), planned_total = 0, remaining_planned = fl (149 / 10),
             actual_spent = 3774579437689897 / 281474976710656,
             remaining_actual = 838795430597755 / 562949953421312,
             days_left = 0, daily_limit = 0, weekly_limit = 0,
             planned_by_category = [],
             actual_by_category = [(''misc'', 3774579437689897 / 281474976710656)]\<rparr>\<rparr>
   \<and> fl (149 / 10) = 8387954305977549 / 562949953421312
   \<and> \<not> (838795430597755 / 562949953421312) / fl (149 / 10) \<le> (1 / 10 :: rat)
   \<and> \<not> (838795430597755 / 562949953421312) / fl (149 / 10) \<le> fl (1 / 10)"
proof (intro conjI)
  show "fl (149 / 10) = 8387954305977549 / 562949953421312"
    by code_simp
  show "\<not> (838795430597755 / 562949953421312) / fl (149 / 10) \<le> (1 / 10 :: rat)"
    by code_simp
  show "\<not> (838795430597755 / 562949953421312) / fl (149 / 10) \<le> fl (1 / 10)"
    by code_simp
qed (rule round_get_alerts_low round_get_budget_low)+

text \<open>
  Claim C9. The alerts of one call are the overspend alerts, then the low-budget alerts, then
  the due-soon alerts: the returned list splits into three consecutive parts, each of one
  type, in this order.
\<close>

theorem alerts_fixed_order:
  assumes "get_alerts db today0 today mo = Inr alerts"
  shows "\<exists>ov lb ds. alerts = ov @ lb @ ds
           \<and> (\<forall>a \<in> set ov. al_type a = ''overspend'')
           \<and> (\<forall>a \<in> set lb. al_type a = ''low_budget'')
           \<and> (\<forall>a \<in> set ds. al_type a = ''due_soon'')"
proof (cases "get_budget db today0 mo")
  case (Inl e)
  with assms have "alerts = []"
    by (auto simp: get_alerts_def split: option.splits if_splits)
  then show ?thesis by simp
next
  case (Inr b)
  then obtain y m n where
    ym: "parse_month mo = Inr (y, m)" "monthrange_ndays y m = Inr n"
    by (rule get_budget_month_ok)
  show ?thesis
  proof (intro exI conjI)
    show "alerts =
        concat (map (overspend_rule mo (actual_by_category (br_metrics b)))
                 (planned_by_category (br_metrics b)))
        @ low_budget_rule mo (income (br_metrics b)) (remaining_actual (br_metrics b))
        @ concat (map (due_soon_rule mo today y m n) (bd_planned_expenses (br_plan b)))"
      by (rule get_alerts_Inr [OF assms Inr ym])
  qed (auto dest: overspend_rule_type low_budget_rule_type due_soon_rule_type)
qed

theorem alerts_fixed_order_witness:
  "\<exists>ov lb ds.
     get_alerts (Some scen_db_b) scen_today scen_today ''2024-02'' = Inr (ov @ lb @ ds)
     \<and> length (ov @ lb @ ds) = 3
     \<and> (\<forall>a \<in> set ov. al_type a = ''overspend'')
     \<and> (\<forall>a \<in> set lb. al_type a = ''low_budget'')
     \<and> (\<forall>a \<in> set ds. al_type a = ''due_soon'')"
proof -
  from alerts_fixed_order [OF scen_get_alerts_b] obtain ov lb ds where split:
    "[\<lparr>al_month = ''2024-02'', al_type = ''overspend'',
          al_message = OverspendMsg ''rent'' 1200 1300, al_level = ''warning''\<rparr>,
        \<lparr>al_month = ''2024-02'', al_type = ''low_budget'',
          al_message = LowBudgetMsg, al_level = ''danger''\<rparr>,
        \<lparr>al_month = ''2024-02'', al_type = ''due_soon'',
          al_message = DueSoonMsg ''Rent'' 4, al_level = ''info''\<rparr>] = ov @ lb @ ds"
    "\<forall>a \<in> set ov. al_type a = ''overspend''"
    "\<forall>a \<in> set lb. al_type a = ''low_budget''"
    "\<forall>a \<in> set ds. al_type a = ''due_soon''"
    by blast
  have "get_alerts (Some scen_db_b) scen_today scen_today ''2024-02'' = Inr (ov @ lb @ ds)"
    unfolding split(1) [symmetric] by (rule scen_get_alerts_b)
  moreover have "length (ov @ lb @ ds) = 3"
    unfolding split(1) [symmetric] by simp
  ultimately show ?thesis
    using split(2-4) by blast
qed

lemma overspend_rule_other:
  "fst item \<noteq> cat \<Longrightarrow>
     filter (\<lambda>a. al_type a = ''overspend''
                \<and> (case al_message a of OverspendMsg c p x \<Rightarrow> c = cat | _ \<Rightarrow> False))
       (overspend_rule mo actual item) = []"
  by (simp add: overspend_rule_def Let_def)

lemma overspend_rule_same:
  "filter (\<lambda>a. al_type a = ''overspend''
                \<and> (case al_message a of OverspendMsg c p x \<Rightarrow> c = cat | _ \<Rightarrow> False))
       (overspend_rule mo actual (cat, q)) = overspend_rule mo actual (cat, q)"
  by (simp add: overspend_rule_def Let_def)

lemma overspend_rules_absent:
  "cat \<notin> fst ` set items \<Longrightarrow>
     filter (\<lambda>a. al_type a = ''overspend''
                \<and> (case al_message a of OverspendMsg c p x \<Rightarrow> c = cat | _ \<Rightarrow> False))
       (concat (map (overspend_rule mo actual) items)) = []"
proof (induction items)
  case Nil
  then show ?case by simp
next
  case (Cons item items)
  then have "fst item \<noteq> cat" "cat \<notin> fst ` set items" by auto
  with Cons.IH show ?case by (simp add: overspend_rule_other)
qed

lemma overspend_rules_present:
  "distinct (map fst items) \<Longrightarrow> (cat, q) \<in> set items \<Longrightarrow>
     filter (\<lambda>a. al_type a = ''overspend''
                \<and> (case al_message a of OverspendMsg c p x \<Rightarrow> c = cat | _ \<Rightarrow> False))
       (concat (map (overspend_rule mo actual) items)) = overspend_rule mo actual (cat, q)"
proof (induction items)
  case Nil
  then show ?case by simp
next
  case (Cons item items)
  show ?case
  proof (cases "item = (cat, q)")
    case True
    with Cons.prems have "cat \<notin> fst ` set items" by simp
    with True show ?thesis
      by (simp add: overspend_rules_absent overspend_rule_same)
  next
    case False
    with Cons.prems have "fst item \<noteq> cat" "(cat, q) \<in> set items" "distinct (map fst items)"
      by (auto simp: rev_image_eqI)
    with Cons.IH show ?thesis
      by (simp add: overspend_rule_other)
  qed
qed

text \<open>
  Claim C1, as the code has it. For a category of \<^verbatim>\<open>planned_by_category\<close> with planned amount \<open>planned_amt\<close>,
  and \<open>actual_amt\<close> its amount in \<^verbatim>\<open>actual_by_category\<close> (0 when absent), the overspend
  alerts about this category are: exactly one when \<open>actual_amt > planned_amt\<close> and
  \<open>planned_amt > 0\<close>, of level \<^verbatim>\<open>warning\<close> when \<open>actual_amt\<close> is at most the binary64
  product \<^verbatim>\<open>planned_amt * 1.25\<close> and \<^verbatim>\<open>danger\<close> otherwise; none otherwise.
\<close>

theorem overspend_alert_iff:
  assumes "get_alerts db today0 today mo = Inr alerts" "get_budget db today0 mo = Inr b"
    "(cat, planned_amt) \<in> set (planned_by_category (br_metrics b))"
    "actual_amt = dict_get (actual_by_category (br_metrics b)) cat 0"
  shows "filter (\<lambda>a. al_type a = ''overspend''
                    \<and> (case al_message a of OverspendMsg c p x \<Rightarrow> c = cat | _ \<Rightarrow> False)) alerts =
           (if actual_amt > planned_amt \<and> planned_amt > 0
            then [\<lparr>al_month = mo, al_type = ''overspend'',
                    al_message = OverspendMsg cat planned_amt actual_amt,
                    al_level = (if actual_amt \<le> fmul planned_amt (5 / 4) then ''warning''
                                else ''danger'')\<rparr>]
            else [])"
proof -
  from assms(2) obtain y m n where
    ym: "parse_month mo = Inr (y, m)" "monthrange_ndays y m = Inr n"
    by (rule get_budget_month_ok)
  from assms(2) obtain plan :: budget_doc where
    "planned_by_category (br_metrics b) = planned_by_cat_loop (bd_planned_expenses plan) []"
    by (rule get_budget_InrE)
  then have dist: "distinct (map fst (planned_by_category (br_metrics b)))"
    by (simp add: planned_by_cat_loop_distinct)
  have lb: "filter (\<lambda>a. al_type a = ''overspend''
                    \<and> (case al_message a of OverspendMsg c p x \<Rightarrow> c = cat | _ \<Rightarrow> False))
      (low_budget_rule mo (income (br_metrics b)) (remaining_actual (br_metrics b))) = []"
    by (auto simp: filter_empty_conv dest: low_budget_rule_type)
  have ds: "filter (\<lambda>a. al_type a = ''overspend''
                    \<and> (case al_message a of OverspendMsg c p x \<Rightarrow> c = cat | _ \<Rightarrow> False))
      (concat (map (due_soon_rule mo today y m n) (bd_planned_expenses (br_plan b)))) = []"
    by (auto simp: filter_empty_conv dest: due_soon_rule_type)
  show ?thesis
    unfolding get_alerts_Inr [OF assms(1,2) ym] filter_append lb ds
      overspend_rules_present [OF dist assms(3)]
    by (simp add: overspend_rule_def assms(4) Let_def)
qed

theorem overspend_alert_iff_witness:
  "\<exists>alerts b.
     get_alerts (Some scen_db_b) scen_today scen_today ''2024-02'' = Inr alerts
     \<and> get_budget (Some scen_db_b) scen_today ''2024-02'' = Inr b
     \<and> (''rent'', 1200) \<in> set (planned_by_category (br_metrics b))
     \<and> dict_get (actual_by_category (br_metrics b)) ''rent'' 0 = 1300
     \<and> filter (\<lambda>a. al_type a = ''overspend''
                  \<and> (case al_message a of OverspendMsg c p x \<Rightarrow> c = ''rent'' | _ \<Rightarrow> False))
         alerts
       = [\<lparr>al_month = ''2024-02'', al_type = ''overspend'',
            al_message = OverspendMsg ''rent'' 1200 1300, al_level = ''warning''\<rparr>]"
  using overspend_alert_iff [OF scen_get_alerts_b scen_get_budget_b, of "''rent''" 1200 1300]
  by (simp add: scen_get_alerts_b scen_get_budget_b fmul_def)

text \<open>
  The threshold is the rounded product: with 0.04 planned and 0.05 spent the level is
  \<^verbatim>\<open>warning\<close>, although the amount spent exceeds 1.25 times the amount planned; the
  product rounds up to the double \<^verbatim>\<open>0.05\<close>.
\<close>

theorem overspend_alert_iff_counterexample:
  "get_alerts (Some round_db_overspend) round_after round_after ''2024-02'' =
     Inr [\<lparr>al_month = ''2024-02'', al_type = ''overspend'',
            al_message =
              OverspendMsg ''coffee'' (5764607523034235 / 144115188075855872)
                (3602879701896397 / 72057594037927936),
            al_level = ''warning''\<rparr>]
   \<and> get_budget (Some round_db_overspend) round_after ''2024-02'' =
     Inr \<lparr>br_plan =
            \<lparr>bd_id = OidStr ''65d0'', bd_month = ''2024-02'', bd_income = 1000,
             bd_notes = None,
             bd_planned_expenses =
               [\<lparr>pe_name = ''Coffee'', pe_category = ''coffee'', pe_amount = fl (1 / 25),
                 pe_due_day = None, pe_recurring = True\<rparr>]\<rparr>,
          br_metrics =
            \<lparr>income = 1000,
             planned_total = 5764607523034235 / 144115188075855872,
             remaining_planned = 1099467647310889 / 1099511627776,
             actual_spent = 3602879701896397 / 72057594037927936,
             remaining_actual = 4397826608778445 / 4398046511104,
             days_left = 0, daily_limit = 0, weekly_limit = 0,
             planned_by_category = [(''coffee'', 5764607523034235 / 144115188075855872)],
             actual_by_category = [(''coffee'', 3602879701896397 / 72057594037927936)]\<rparr>\<rparr>
   \<and> \<not> 3602879701896397 / 72057594037927936
         \<le> 5764607523034235 / 144115188075855872 * (5 / 4 :: rat)"
proof (intro conjI)
  show "\<not> 3602879701896397 / 72057594037927936
         \<le> 5764607523034235 / 144115188075855872 * (5 / 4 :: rat)"
    by simp
qed (rule round_get_alerts_overspend round_get_budget_overspend)+

text \<open>
  Claim C2. The due-soon alerts of one call are those of the planned expenses, in the order
  of the plan, each expense giving none or one: none when \<^verbatim>\<open>due_day\<close> is \<^verbatim>\<open>None\<close> or 0;
  otherwise, with \<^verbatim>\<open>due_day\<close> clamped into 1..\<open>n\<close> (\<open>n\<close> the number of days of the month) and
  \<open>days_until\<close> the number of days from the reference date to the due date, one alert when
  \<open>0 \<le> days_until \<le> 5\<close>, of level \<^verbatim>\<open>info\<close> when \<open>days_until \<ge> 3\<close> and \<^verbatim>\<open>warning\<close>
  otherwise, and none when \<open>days_until\<close> is outside 0..5.
\<close>

theorem due_soon_alert_iff:
  assumes "get_alerts db today0 today mo = Inr alerts" "get_budget db today0 mo = Inr b"
    "parse_month mo = Inr (y, m)" "monthrange_ndays y m = Inr n"
  shows "filter (\<lambda>a. al_type a = ''due_soon'') alerts =
           concat (map (due_soon_rule mo today y m n) (bd_planned_expenses (br_plan b)))
       \<and> (\<forall>p \<in> set (bd_planned_expenses (br_plan b)).
            length (due_soon_rule mo today y m n p) \<le> 1
          \<and> (pe_due_day p = None \<or> pe_due_day p = Some 0 \<longrightarrow> due_soon_rule mo today y m n p = [])
          \<and> (\<forall>dd. pe_due_day p = Some dd \<and> dd \<noteq> 0 \<longrightarrow>
                1 \<le> min (max dd 1) n \<and> min (max dd 1) n \<le> n
              \<and> due_soon_rule mo today y m n p =
                  (if 0 \<le> date_diff_days \<lparr>d_year = y, d_month = m, d_day = min (max dd 1) n\<rparr> today
                      \<and> date_diff_days \<lparr>d_year = y, d_month = m, d_day = min (max dd 1) n\<rparr> today \<le> 5
                   then [\<lparr>al_month = mo, al_type = ''due_soon'',
                           al_message = DueSoonMsg (pe_name p)
                             (date_diff_days \<lparr>d_year = y, d_month = m, d_day = min (max dd 1) n\<rparr> today),
                           al_level =
                             (if 3 \<le> date_diff_days \<lparr>d_year = y, d_month = m, d_day = min (max dd 1) n\<rparr> today
                              then ''info'' else ''warning'')\<rparr>]
                   else [])))"
proof -
  have ov: "filter (\<lambda>a. al_type a = ''due_soon'')
      (concat (map (overspend_rule mo (actual_by_category (br_metrics b)))
         (planned_by_category (br_metrics b)))) = []"
    by (auto simp: filter_empty_conv dest: overspend_rule_type)
  have lb: "filter (\<lambda>a. al_type a = ''due_soon'')
      (low_budget_rule mo (income (br_metrics b)) (remaining_actual (br_metrics b))) = []"
    by (auto simp: filter_empty_conv dest: low_budget_rule_type)
  have ds: "filter (\<lambda>a. al_type a = ''due_soon'')
      (concat (map (due_soon_rule mo today y m n) (bd_planned_expenses (br_plan b)))) =
      concat (map (due_soon_rule mo today y m n) (bd_planned_expenses (br_plan b)))"
    by (auto simp: filter_id_conv dest: due_soon_rule_type)
  have first: "filter (\<lambda>a. al_type a = ''due_soon'') alerts =
      concat (map (due_soon_rule mo today y m n) (bd_planned_expenses (br_plan b)))"
    unfolding get_alerts_Inr [OF assms] filter_append ov lb ds by simp
  from monthrange_ndays_ge [OF assms(4)] have n: "28 \<le> n" by simp
  have one: "length (due_soon_rule mo today y m n p) \<le> 1" for p
    by (simp add: due_soon_rule_def Let_def split: option.splits)
  have none: "pe_due_day p = None \<or> pe_due_day p = Some 0 \<longrightarrow> due_soon_rule mo today y m n p = []"
    for p
    by (auto simp: due_soon_rule_def)
  have some: "pe_due_day p = Some dd \<and> dd \<noteq> 0 \<longrightarrow>
                1 \<le> min (max dd 1) n \<and> min (max dd 1) n \<le> n
              \<and> due_soon_rule mo today y m n p =
                  (if 0 \<le> date_diff_days \<lparr>d_year = y, d_month = m, d_day = min (max dd 1) n\<rparr> today
                      \<and> date_diff_days \<lparr>d_year = y, d_month = m, d_day = min (max dd 1) n\<rparr> today \<le> 5
                   then [\<lparr>al_month = mo, al_type = ''due_soon'',
                           al_message = DueSoonMsg (pe_name p)
                             (date_diff_days \<lparr>d_year = y, d_month = m, d_day = min (max dd 1) n\<rparr> today),
                           al_level =
                             (if 3 \<le> date_diff_days \<lparr>d_year = y, d_month = m, d_day = min (max dd 1) n\<rparr> today
                              then ''info'' else ''warning'')\<rparr>]
                   else [])" for p dd
    using n by (simp add: due_soon_rule_def Let_def)
  from first one none some show ?thesis by blast
qed

theorem due_soon_alert_iff_witness:
  "\<exists>alerts.
     get_alerts (Some scen_db_b) scen_today scen_today ''2024-02'' = Inr alerts
     \<and> filter (\<lambda>a. al_type a = ''due_soon'') alerts =
         [\<lparr>al_month = ''2024-02'', al_type = ''due_soon'',
            al_message = DueSoonMsg ''Rent'' 4, al_level = ''info''\<rparr>]
     \<and> due_soon_rule ''2024-02'' scen_today 2024 2 29 scen_rent =
         [\<lparr>al_month = ''2024-02'', al_type = ''due_soon'',
            al_message = DueSoonMsg ''Rent'' 4, al_level = ''info''\<rparr>]"
proof -
  from due_soon_alert_iff [OF scen_get_alerts_b scen_get_budget_b scen_parse scen_monthrange,
      THEN conjunct1]
  have "due_soon_rule ''2024-02'' scen_today 2024 2 29 scen_rent =
         [\<lparr>al_month = ''2024-02'', al_type = ''due_soon'',
            al_message = DueSoonMsg ''Rent'' 4, al_level = ''info''\<rparr>]"
    by (simp add: scen_plan_def)
  then show ?thesis
    by (simp add: scen_get_alerts_b)
qed

subsection \<open>Upsert\<close>

lemma find_one_month_update_first:
  "find_one_month coll mo = Some doc \<Longrightarrow> bm_month payload = mo \<Longrightarrow>
     find_one_month (update_first coll mo payload) mo = Some (set_fields doc payload)"
  by (induction coll) (auto simp: find_one_month_def set_fields_def split: if_splits)

lemma find_one_month_append_new:
  "find_one_month coll mo = None \<Longrightarrow> bd_month doc = mo \<Longrightarrow>
     find_one_month (coll @ [doc]) mo = Some doc"
  by (induction coll) (auto simp: find_one_month_def split: if_splits)

text \<open>
  Claim C8. After a successful upsert the document stored under the month key carries the
  submitted \<^verbatim>\<open>month\<close>, \<^verbatim>\<open>income\<close>, \<^verbatim>\<open>notes\<close> and \<^verbatim>\<open>planned_expenses\<close>, whatever was stored
  before: of an earlier document only the \<^verbatim>\<open>_id\<close> is kept. The response carries this
  document.
\<close>

theorem upsert_replaces_document:
  assumes "upsert_budget db new_id mo payload = Inr (d', resp)"
  shows "\<exists>doc. find_one_month (budgetmonth d') mo = Some doc
           \<and> bd_month doc = bm_month payload
           \<and> bd_income doc = bm_income payload
           \<and> bd_notes doc = bm_notes payload
           \<and> bd_planned_expenses doc = bm_planned_expenses payload
           \<and> budget resp = Some (oid_str doc)"
proof -
  from assms have mo: "bm_month payload = mo"
    by (auto simp: upsert_budget_def split: if_splits)
  from assms obtain d where d: "db = Some d"
    by (auto simp: upsert_budget_def split: if_splits option.splits)
  from assms mo d have d': "d' = d\<lparr>budgetmonth := update_one_set_upsert (budgetmonth d) new_id mo payload\<rparr>"
    and resp: "budget resp = map_option oid_str (find_one_month (budgetmonth d') mo)"
    by (auto simp: upsert_budget_def Let_def)
  have "\<exists>doc0. find_one_month (budgetmonth d') mo = Some (set_fields doc0 payload)"
  proof (cases "find_one_month (budgetmonth d) mo")
    case None
    have "find_one_month
            (budgetmonth d @
              [set_fields \<lparr>bd_id = new_id, bd_month = mo, bd_income = 0,
                           bd_notes = None, bd_planned_expenses = []\<rparr> payload]) mo =
          Some (set_fields \<lparr>bd_id = new_id, bd_month = mo, bd_income = 0,
                            bd_notes = None, bd_planned_expenses = []\<rparr> payload)"
      by (rule find_one_month_append_new [OF None]) (simp add: set_fields_def mo)
    with None show ?thesis
      unfolding d' by (auto simp: update_one_set_upsert_def)
  next
    case (Some doc0)
    then show ?thesis
      unfolding d' using mo
      by (auto simp: update_one_set_upsert_def find_one_month_update_first)
  qed
  then obtain doc0 where "find_one_month (budgetmonth d') mo = Some (set_fields doc0 payload)"
    by blast
  with resp show ?thesis
    by (simp add: set_fields_def)
qed

theorem upsert_replaces_document_witness:
  "\<exists>d' resp doc.
     upsert_budget (Some scen_db_a) (ObjectId ''65c2'') ''2024-02'' scen_payload = Inr (d', resp)
     \<and> find_one_month (budgetmonth d') ''2024-02'' = Some doc
     \<and> bd_income doc = 2000 \<and> bd_notes doc = Some ''raise'' \<and> bd_planned_expenses doc = []"
proof -
  obtain d' resp where
    up: "upsert_budget (Some scen_db_a) (ObjectId ''65c2'') ''2024-02'' scen_payload = Inr (d', resp)"
    by (simp add: upsert_budget_def scen_payload_def Let_def)
  from upsert_replaces_document [OF up] up show ?thesis
    by (auto simp: scen_payload_def)
qed

subsection \<open>ISO dates within a month\<close>











subsection \<open>One more transaction\<close>






end
